theory Spec2Isabelle
  imports Main "HOL-Library.Word" "HOL-Library.Sublist"
begin

unbundle bit_operations_syntax

section \<open>The curl HTTP client of mongo/util/net/http_client_curl.cpp\<close>

text \<open>
  The file has three parts: the library manager (\<open>CurlLibraryManager::initialize\<close>), the
  two callbacks that libcurl calls during a transfer (\<open>WriteMemoryCallback\<close>,
  \<open>ReadMemoryCallback\<close>) and the worker function \<open>CurlHttpClient::doPost\<close>. libcurl and
  mongo's own helper classes (Status, DataBuilder, ConstDataRangeCursor, SharedPromise) are
  not part of the file; what the file needs of them is modelled below, and every answer
  that libcurl or the allocator gives is a field of the record \<open>env\<close>, so that a theorem
  about \<open>doPost\<close> holds for every behaviour of the library.
\<close>

subsection \<open>Machine types\<close>

type_synonym byte = "8 word"
type_synonym bytes = "byte list"
type_synonym size_t = "64 word"
type_synonym long = int
type_synonym CURLcode = nat

text \<open>Values of curl/curl.h that the file names.\<close>

definition CURLE_OK :: CURLcode where "CURLE_OK = 0"
definition CURLE_UNSUPPORTED_PROTOCOL :: CURLcode where "CURLE_UNSUPPORTED_PROTOCOL = 1"
definition CURLE_WRITE_ERROR :: CURLcode where "CURLE_WRITE_ERROR = 23"
definition CURLPROTO_HTTP :: long where "CURLPROTO_HTTP = 1"
definition CURLPROTO_HTTPS :: long where "CURLPROTO_HTTPS = 2"
definition CURLPROTO_ALL :: long where "CURLPROTO_ALL = -1"
definition CURL_HTTP_VERSION_1_1 :: long where "CURL_HTTP_VERSION_1_1 = 2"
definition CURL_SSLVERSION_TLSv1_2 :: long where "CURL_SSLVERSION_TLSv1_2 = 6"
definition CURL_VERSION_SSL :: int where "CURL_VERSION_SSL = 4"
definition CURL_GLOBAL_ALL :: long where "CURL_GLOBAL_ALL = 3"

subsection \<open>Status\<close>

datatype ErrorCodes = OK | InternalError | UnknownError | OperationFailed

record Status =
  code :: ErrorCodes
  reason :: string

definition Status_OK :: Status where
  "Status_OK = \<lparr>code = OK, reason = []\<rparr>"

definition isOK :: "Status \<Rightarrow> bool" where
  "isOK s = (code s = OK)"

text \<open>
  \<open>str::stream() << n\<close> for an integer \<open>n\<close> writes its decimal digits, with a minus sign
  for a negative one.
\<close>

definition digit_char :: "nat \<Rightarrow> char" where
  "digit_char d = ''0123456789'' ! d"

function dec_nat :: "nat \<Rightarrow> string" where
  "dec_nat n = (if n < 10 then [digit_char n] else dec_nat (n div 10) @ [digit_char (n mod 10)])"
  by pat_completeness auto
termination
  by (relation "measure id") auto

declare dec_nat.simps [simp del]

definition dec_int :: "int \<Rightarrow> string" where
  "dec_int i = (if i < 0 then CHR ''-'' # dec_nat (nat (- i)) else dec_nat (nat i))"

subsection \<open>ConstDataRangeCursor and DataBuilder\<close>

text \<open>
  Modelled from the spec: \<open>ConstDataRangeCursor\<close> (mongo/base/data_range_cursor.h) is not
  among the sources. The spec describes it as a read position over the payload with
  \<open>remaining-length()\<close>, \<open>pointer-to-unread()\<close> and \<open>advance(n) -> success/failure\<close>, that
  never exceeds the payload length. The cursor is the list of unread bytes; \<open>advance\<close>
  fails (\<open>None\<close>) when asked to go past the end.
\<close>

type_synonym ConstDataRange = bytes
type_synonym ConstDataRangeCursor = bytes

definition cdrc_length :: "ConstDataRangeCursor \<Rightarrow> nat" where
  "cdrc_length cdrc = length cdrc"

definition cdrc_data :: "ConstDataRangeCursor \<Rightarrow> bytes" where
  "cdrc_data cdrc = cdrc"

definition cdrc_advance :: "ConstDataRangeCursor \<Rightarrow> nat \<Rightarrow> ConstDataRangeCursor option" where
  "cdrc_advance cdrc n = (if n > cdrc_length cdrc then None else Some (drop n cdrc))"

text \<open>
  Modelled from the spec: \<open>DataBuilder\<close> (mongo/base/data_builder.h) is not among the
  sources. The spec describes it as an append-only growable byte store with
  \<open>append(bytes) -> success/failure\<close> and \<open>read-all-as-cursor()\<close>, starting with the capacity
  given to its constructor. Whether an append succeeds is the allocator's answer; it is
  the parameter \<open>grant\<close> (the field \<open>grant_append\<close> of the environment below). A failed
  append leaves the store as it was.
\<close>

record DataBuilder =
  written :: bytes
  capacity :: nat

definition DataBuilder_new :: "nat \<Rightarrow> DataBuilder" where
  "DataBuilder_new n = \<lparr>written = [], capacity = n\<rparr>"

definition writeAndAdvance ::
  "(DataBuilder \<Rightarrow> bytes \<Rightarrow> bool) \<Rightarrow> DataBuilder \<Rightarrow> ConstDataRange \<Rightarrow> DataBuilder option" where
  "writeAndAdvance grant mem r =
     (if grant mem r
      then Some \<lparr>written = written mem @ r,
                 capacity = max (capacity mem) (length (written mem) + length r)\<rparr>
      else None)"

definition getCursor :: "DataBuilder \<Rightarrow> ConstDataRangeCursor" where
  "getCursor mem = written mem"


subsection \<open>The callbacks\<close>

text \<open>
  \<open>WriteMemoryCallback(ptr, size, nmemb, data)\<close>: \<open>ptr\<close> is the memory at the pointer (at
  least \<open>size * nmemb\<close> bytes of it), the product is taken in \<open>size_t\<close>; the
  parameter \<open>size\<close> is written \<open>sz\<close>. The result is the
  returned count and the DataBuilder afterwards.
\<close>

definition WriteMemoryCallback ::
  "(DataBuilder \<Rightarrow> bytes \<Rightarrow> bool) \<Rightarrow> bytes \<Rightarrow> size_t \<Rightarrow> size_t \<Rightarrow> DataBuilder \<Rightarrow> nat \<times> DataBuilder" where
  "WriteMemoryCallback grant ptr sz nmemb mem =
     (let realsize = unat (sz * nmemb) in
      case writeAndAdvance grant mem (take realsize ptr) of
        None \<Rightarrow> (0, mem)
      | Some mem' \<Rightarrow> (realsize, mem'))"

text \<open>
  \<open>memcpy(dst, src, n)\<close> overwrites the first \<open>n\<close> bytes of \<open>dst\<close>.
\<close>

definition memcpy :: "bytes \<Rightarrow> bytes \<Rightarrow> nat \<Rightarrow> bytes" where
  "memcpy dst src n = take n src @ drop n dst"

text \<open>
  \<open>ReadMemoryCallback(buffer, size, nitems, instream)\<close>: the result is \<open>None\<close> when the
  \<open>invariant\<close> fails (the process aborts), and otherwise the returned count, the buffer
  and the cursor afterwards.
\<close>

definition ReadMemoryCallback ::
  "bytes \<Rightarrow> size_t \<Rightarrow> size_t \<Rightarrow> ConstDataRangeCursor \<Rightarrow> (nat \<times> bytes \<times> ConstDataRangeCursor) option" where
  "ReadMemoryCallback buffer sz nitems cdrc =
     (if cdrc_length cdrc > 0
      then
        (let readSize = min (unat (sz * nitems)) (cdrc_length cdrc) in
         case cdrc_advance cdrc readSize of
           None \<Rightarrow> None
         | Some cdrc' \<Rightarrow> Some (readSize, memcpy buffer (cdrc_data cdrc) readSize, cdrc'))
      else Some (0, buffer, cdrc))"

subsection \<open>SharedPromise\<close>

text \<open>
  Modelled from the spec: \<open>SharedPromise\<close> (mongo/util/future.h) is not among the sources.
  The spec describes it as a single-assignment slot that receives one error or one value.
  The model keeps every write, in order, so that "written exactly once" is a statement
  about the length of the list.
\<close>

datatype promise_write = SetError Status | EmplaceValue bytes

type_synonym SharedPromise = "promise_write list"

definition setError :: "SharedPromise \<Rightarrow> Status \<Rightarrow> SharedPromise" where
  "setError p s = p @ [SetError s]"

definition emplaceValue :: "SharedPromise \<Rightarrow> bytes \<Rightarrow> SharedPromise" where
  "emplaceValue p v = p @ [EmplaceValue v]"

subsection \<open>Exceptions and aborts\<close>

text \<open>
  A C++ exception is a \<open>fault\<close>. A function body ends in one of three ways: it returns,
  it throws, or the process aborts (a failed \<open>invariant\<close>). The places of \<open>doPost\<close> that
  allocate memory, and so can throw, are the \<open>alloc_site\<close>s: building the Status of line
  165, the DataBuilder of line 182, the messages of lines 220, 229 and 236, and the
  vector of line 243.
\<close>

datatype fault = DBException Status | StdException string | UnknownException

datatype completion = Returns | Throws fault | Aborts

datatype alloc_site =
  AllocInitError | AllocDataBuilder | AllocPerformError | AllocGetinfoError
  | AllocStatusCodeError | AllocResultVector

subsection \<open>libcurl, as the file uses it\<close>

datatype CURLoption =
  CURLOPT_URL | CURLOPT_POST | CURLOPT_PROTOCOLS | CURLOPT_HTTP_VERSION
  | CURLOPT_WRITEFUNCTION | CURLOPT_WRITEDATA | CURLOPT_READFUNCTION | CURLOPT_READDATA
  | CURLOPT_POSTFIELDSIZE | CURLOPT_CONNECTTIMEOUT | CURLOPT_TIMEOUT | CURLOPT_SSLVERSION
  | CURLOPT_FOLLOWLOCATION | CURLOPT_NOSIGNAL | CURLOPT_HTTPHEADER

datatype callback = WriteMemoryCallback_fn | ReadMemoryCallback_fn

datatype optval =
  LongVal long | StrVal string | FunVal callback | DataBuilderPtr | CursorPtr
  | SlistVal "string list option"

text \<open>
  A transfer handle is the list of options set on it, in the order of the calls. What
  libcurl and the server do during \<open>curl_easy_perform\<close> is a list of events
  (\<open>Deliver ptr size nmemb\<close>: received bytes for the write function of the handle,
  \<open>Request buffer size nitems\<close>: a buffer for the read function of the handle to fill) and
  the code it returns when no callback stops the transfer.
\<close>

type_synonym CURL = "(CURLoption \<times> optval) list"

datatype event = Deliver bytes size_t size_t | Request bytes size_t size_t

text \<open>
  Everything outside the file: the answers of libcurl, of the allocator and of the
  process configuration. \<open>global_init_result e n\<close> is what \<open>curl_global_init\<close> returns when
  it has been called \<open>n\<close> times before.
\<close>

record env =
  getTestCommandsEnabled :: bool
  kConnectionTimeoutSeconds :: long
  kTotalRequestTimeoutSeconds :: long
  LIBCURL_VERSION_NUM :: nat
  grant_append :: "DataBuilder \<Rightarrow> bytes \<Rightarrow> bool"
  throws_at :: "alloc_site \<Rightarrow> fault option"
  exceptionToStatus :: "fault \<Rightarrow> Status"
  global_init_result :: "nat \<Rightarrow> CURLcode"
  version_features :: int
  easy_init_ok :: bool
  setopt_result :: "CURLoption \<Rightarrow> CURLcode"
  slist_append_ok :: "string \<Rightarrow> bool"
  transfer :: "CURL \<Rightarrow> event list \<times> CURLcode"
  getinfo_result :: CURLcode
  response_code :: long
  curl_easy_strerror :: "CURLcode \<Rightarrow> string"

definition curl_global_init :: "env \<Rightarrow> long \<Rightarrow> nat \<Rightarrow> CURLcode \<times> nat" where
  "curl_global_init e flags calls = (global_init_result e calls, Suc calls)"

definition curl_easy_init :: "env \<Rightarrow> CURL option" where
  "curl_easy_init e = (if easy_init_ok e then Some [] else None)"

definition curl_easy_setopt :: "env \<Rightarrow> CURL \<Rightarrow> CURLoption \<Rightarrow> optval \<Rightarrow> CURLcode \<times> CURL" where
  "curl_easy_setopt e h opt v = (setopt_result e opt, h @ [(opt, v)])"

text \<open>\<open>curl_slist_append\<close> returns the longer list, or NULL (\<open>None\<close>) when it fails.\<close>

definition curl_slist_append :: "env \<Rightarrow> string list option \<Rightarrow> string \<Rightarrow> string list option" where
  "curl_slist_append e list s =
     (if slist_append_ok e s
      then Some (case list of None \<Rightarrow> [s] | Some l \<Rightarrow> l @ [s])
      else None)"

definition curl_easy_getinfo_RESPONSE_CODE :: "env \<Rightarrow> CURL \<Rightarrow> CURLcode \<times> long" where
  "curl_easy_getinfo_RESPONSE_CODE e h = (getinfo_result e, response_code e)"

text \<open>How libcurl reads a handle: the last value set for an option, or its default.\<close>

fun last_long :: "CURLoption \<Rightarrow> long \<Rightarrow> CURL \<Rightarrow> long" where
  "last_long opt d [] = d"
| "last_long opt d ((opt', v) # h) =
     last_long opt (case v of LongVal n \<Rightarrow> if opt' = opt then n else d | _ \<Rightarrow> d) h"

fun last_str :: "CURLoption \<Rightarrow> string \<Rightarrow> CURL \<Rightarrow> string" where
  "last_str opt d [] = d"
| "last_str opt d ((opt', v) # h) =
     last_str opt (case v of StrVal s \<Rightarrow> if opt' = opt then s else d | _ \<Rightarrow> d) h"

definition allowed_protocols :: "CURL \<Rightarrow> long" where
  "allowed_protocols h = last_long CURLOPT_PROTOCOLS CURLPROTO_ALL h"

definition handle_url :: "CURL \<Rightarrow> string" where
  "handle_url h = last_str CURLOPT_URL [] h"

text \<open>
  The callbacks that a handle is wired to. libcurl hands the received bytes to the
  function set as \<open>CURLOPT_WRITEFUNCTION\<close>, with the pointer set as \<open>CURLOPT_WRITEDATA\<close>,
  and asks the function set as \<open>CURLOPT_READFUNCTION\<close>, with the pointer set as
  \<open>CURLOPT_READDATA\<close>, for the request body. Without them it uses its defaults (\<open>fwrite\<close>
  to stdout, \<open>fread\<close> from stdin), which touch neither the DataBuilder nor the cursor.
\<close>

fun last_val :: "CURLoption \<Rightarrow> optval option \<Rightarrow> CURL \<Rightarrow> optval option" where
  "last_val opt d [] = d"
| "last_val opt d ((opt', v) # h) = last_val opt (if opt' = opt then Some v else d) h"

definition write_wired :: "CURL \<Rightarrow> bool" where
  "write_wired h =
     (last_val CURLOPT_WRITEFUNCTION None h = Some (FunVal WriteMemoryCallback_fn)
      \<and> last_val CURLOPT_WRITEDATA None h = Some DataBuilderPtr)"

definition read_wired :: "CURL \<Rightarrow> bool" where
  "read_wired h =
     (last_val CURLOPT_READFUNCTION None h = Some (FunVal ReadMemoryCallback_fn)
      \<and> last_val CURLOPT_READDATA None h = Some CursorPtr)"

text \<open>
  The transfer loop of libcurl on the handle \<open>h\<close>: an event reaches a callback of the
  file only when the handle is wired to it, and a write callback that returns another
  number than \<open>size * nmemb\<close> stops the transfer with \<open>CURLE_WRITE_ERROR\<close> (the contract
  that the comment in \<open>WriteMemoryCallback\<close> relies on). \<open>None\<close> is the abort of the
  process by the \<open>invariant\<close> in \<open>ReadMemoryCallback\<close>.
\<close>

fun run_events ::
  "CURL \<Rightarrow> (DataBuilder \<Rightarrow> bytes \<Rightarrow> bool) \<Rightarrow> CURLcode \<Rightarrow> event list \<Rightarrow> ConstDataRangeCursor
     \<Rightarrow> DataBuilder \<Rightarrow> (CURLcode \<times> ConstDataRangeCursor \<times> DataBuilder) option" where
  "run_events h g rc [] cdrc mem = Some (rc, cdrc, mem)"
| "run_events h g rc (Deliver ptr sz nmemb # es) cdrc mem =
     (if write_wired h
      then (case WriteMemoryCallback g ptr sz nmemb mem of
              (n, mem') \<Rightarrow>
                if n \<noteq> unat (sz * nmemb) then Some (CURLE_WRITE_ERROR, cdrc, mem')
                else run_events h g rc es cdrc mem')
      else run_events h g rc es cdrc mem)"
| "run_events h g rc (Request buffer sz nitems # es) cdrc mem =
     (if read_wired h
      then (case ReadMemoryCallback buffer sz nitems cdrc of
              None \<Rightarrow> None
            | Some (n, buffer', cdrc') \<Rightarrow> run_events h g rc es cdrc' mem)
      else run_events h g rc es cdrc mem)"

definition curl_easy_perform ::
  "env \<Rightarrow> CURL \<Rightarrow> ConstDataRangeCursor \<Rightarrow> DataBuilder
     \<Rightarrow> (CURLcode \<times> ConstDataRangeCursor \<times> DataBuilder) option" where
  "curl_easy_perform e h cdrc mem =
     (case transfer e h of (es, rc) \<Rightarrow> run_events h (grant_append e) rc es cdrc mem)"

text \<open>
  The protocol restriction of libcurl (\<open>CURLOPT_PROTOCOLS\<close>), as a property of an
  environment: a transfer to an http:// URL on a handle whose allowed protocols lack the
  HTTP bit calls no callback and returns \<open>CURLE_UNSUPPORTED_PROTOCOL\<close>.
\<close>

definition enforces_protocols :: "env \<Rightarrow> bool" where
  "enforces_protocols e =
     (\<forall>h. prefix ''http://'' (handle_url h) \<and> allowed_protocols h AND CURLPROTO_HTTP = 0
        \<longrightarrow> transfer e h = ([], CURLE_UNSUPPORTED_PROTOCOL))"

subsection \<open>CurlLibraryManager\<close>

record CurlLibraryManager =
  initialized :: bool

text \<open>
  \<open>initialize\<close>, with the number of calls of \<open>curl_global_init\<close> made so far passed along.
\<close>

definition initialize ::
  "env \<Rightarrow> CurlLibraryManager \<times> nat \<Rightarrow> Status \<times> CurlLibraryManager \<times> nat" where
  "initialize e st =
     (case st of (m, calls) \<Rightarrow>
        if initialized m then (Status_OK, m, calls)
        else
          (case curl_global_init e CURL_GLOBAL_ALL calls of
             (ret, calls') \<Rightarrow>
               if ret \<noteq> CURLE_OK
               then (\<lparr>code = InternalError,
                      reason = ''Failed to initialize CURL: '' @ dec_int (int ret)\<rparr>, m, calls')
               else if version_features e AND CURL_VERSION_SSL = 0
               then (\<lparr>code = InternalError,
                      reason = ''Curl lacks SSL support, cannot continue''\<rparr>, m, calls')
               else (Status_OK, m\<lparr>initialized := True\<rparr>, calls')))"

subsection \<open>CurlHttpClient::doPost\<close>

text \<open>Lines 169 to 180: the options set before the DataBuilder is built.\<close>

definition doPost_options1 :: "env \<Rightarrow> CURL \<Rightarrow> string \<Rightarrow> CURL" where
  "doPost_options1 e myHandle urlString =
     (let h1 = snd (curl_easy_setopt e myHandle CURLOPT_URL (StrVal urlString));
          h2 = snd (curl_easy_setopt e h1 CURLOPT_POST (LongVal 1));
          h3 = (if getTestCommandsEnabled e
                then snd (curl_easy_setopt e h2 CURLOPT_PROTOCOLS
                            (LongVal (CURLPROTO_HTTPS OR CURLPROTO_HTTP)))
                else snd (curl_easy_setopt e h2 CURLOPT_PROTOCOLS (LongVal CURLPROTO_HTTPS)))
      in snd (curl_easy_setopt e h3 CURLOPT_HTTP_VERSION (LongVal CURL_HTTP_VERSION_1_1)))"

text \<open>
  Lines 184 to 216: the remaining options and the header list. \<open>(long)cdrc.length()\<close> is
  the length read as a signed 64-bit number.
\<close>

definition doPost_options2 :: "env \<Rightarrow> CURL \<Rightarrow> ConstDataRangeCursor \<Rightarrow> CURL" where
  "doPost_options2 e myHandle cdrc =
     (let h1 = snd (curl_easy_setopt e myHandle CURLOPT_WRITEFUNCTION (FunVal WriteMemoryCallback_fn));
          h2 = snd (curl_easy_setopt e h1 CURLOPT_WRITEDATA DataBuilderPtr);
          h3 = snd (curl_easy_setopt e h2 CURLOPT_READFUNCTION (FunVal ReadMemoryCallback_fn));
          h4 = snd (curl_easy_setopt e h3 CURLOPT_READDATA CursorPtr);
          h5 = snd (curl_easy_setopt e h4 CURLOPT_POSTFIELDSIZE
                      (LongVal (sint (word_of_nat (cdrc_length cdrc) :: 64 word))));
          h6 = snd (curl_easy_setopt e h5 CURLOPT_CONNECTTIMEOUT
                      (LongVal (kConnectionTimeoutSeconds e)));
          h7 = snd (curl_easy_setopt e h6 CURLOPT_TIMEOUT
                      (LongVal (kTotalRequestTimeoutSeconds e)));
          h8 = (if LIBCURL_VERSION_NUM e > 0x072200
                then snd (curl_easy_setopt e h7 CURLOPT_SSLVERSION (LongVal CURL_SSLVERSION_TLSv1_2))
                else h7);
          h9 = snd (curl_easy_setopt e h8 CURLOPT_FOLLOWLOCATION (LongVal 0));
          h10 = snd (curl_easy_setopt e h9 CURLOPT_NOSIGNAL (LongVal 1));
          chunk0 = None;
          chunk1 = curl_slist_append e chunk0 ''Content-Type: application/octet-stream'';
          chunk2 = curl_slist_append e chunk1 ''Accept: application/octet-stream'';
          chunk3 = curl_slist_append e chunk2 ''Expect:''
      in snd (curl_easy_setopt e h10 CURLOPT_HTTPHEADER (SlistVal chunk3)))"

text \<open>The handle as it is when \<open>curl_easy_perform\<close> is called (line 218).\<close>

definition doPost_handle :: "env \<Rightarrow> string \<Rightarrow> ConstDataRange \<Rightarrow> CURL" where
  "doPost_handle e urlString cdr = doPost_options2 e (doPost_options1 e [] urlString) cdr"

text \<open>A statement that allocates at \<open>site\<close> and then goes on with \<open>k\<close>.\<close>

definition allocating ::
  "env \<Rightarrow> alloc_site \<Rightarrow> SharedPromise \<Rightarrow> SharedPromise \<times> completion \<Rightarrow> SharedPromise \<times> completion" where
  "allocating e site p k = (case throws_at e site of Some f \<Rightarrow> (p, Throws f) | None \<Rightarrow> k)"

text \<open>The \<open>try\<close> block of \<open>doPost\<close> (lines 160 to 243).\<close>

definition doPost_try ::
  "env \<Rightarrow> SharedPromise \<Rightarrow> string \<Rightarrow> ConstDataRange \<Rightarrow> SharedPromise \<times> completion" where
  "doPost_try e shared_promise urlString cdr =
     (let cdrc = cdr in
      case curl_easy_init e of
        None \<Rightarrow>
          allocating e AllocInitError shared_promise
            (setError shared_promise
               \<lparr>code = InternalError, reason = ''Curl initialization failed''\<rparr>, Returns)
      | Some myHandle \<Rightarrow>
          (let h1 = doPost_options1 e myHandle urlString in
           allocating e AllocDataBuilder shared_promise
             (let dataBuilder = DataBuilder_new 4096;
                  h2 = doPost_options2 e h1 cdrc
              in case curl_easy_perform e h2 cdrc dataBuilder of
                   None \<Rightarrow> (shared_promise, Aborts)
                 | Some (result, cdrc', dataBuilder') \<Rightarrow>
                     if result \<noteq> CURLE_OK
                     then allocating e AllocPerformError shared_promise
                            (setError shared_promise
                               \<lparr>code = OperationFailed,
                                reason = ''Bad HTTP response from API server: ''
                                         @ curl_easy_strerror e result\<rparr>, Returns)
                     else
                       (case curl_easy_getinfo_RESPONSE_CODE e h2 of
                          (result2, statusCode) \<Rightarrow>
                            if result2 \<noteq> CURLE_OK
                            then allocating e AllocGetinfoError shared_promise
                                   (setError shared_promise
                                      \<lparr>code = OperationFailed,
                                       reason = ''Unexpected error retrieving response: ''
                                                @ curl_easy_strerror e result2\<rparr>, Returns)
                            else if statusCode \<noteq> 200
                            then allocating e AllocStatusCodeError shared_promise
                                   (setError shared_promise
                                      \<lparr>code = OperationFailed,
                                       reason = ''Unexpected http status code from server: ''
                                                @ dec_int statusCode\<rparr>, Returns)
                            else allocating e AllocResultVector shared_promise
                                   (let d = getCursor dataBuilder'
                                    in (emplaceValue shared_promise
                                          (take (cdrc_length d) (cdrc_data d)), Returns))))))"

text \<open>\<open>doPost\<close>: the \<open>try\<close> block and its \<open>catch (...)\<close> (lines 244 to 246).\<close>

definition doPost ::
  "env \<Rightarrow> SharedPromise \<Rightarrow> string \<Rightarrow> ConstDataRange \<Rightarrow> SharedPromise \<times> completion" where
  "doPost e shared_promise urlString cdr =
     (case doPost_try e shared_promise urlString cdr of
        (p, Throws f) \<Rightarrow> (setError p (exceptionToStatus e f), Returns)
      | (p, c) \<Rightarrow> (p, c))"

subsection \<open>Observations and example environments\<close>

text \<open>The bytes that an event hands to the write callback.\<close>

fun delivered :: "event \<Rightarrow> bytes" where
  "delivered (Deliver ptr sz nmemb) = take (unat (sz * nmemb)) ptr"
| "delivered (Request buffer sz nitems) = []"

text \<open>
  A concrete environment for the examples: a libcurl with TLS support that refuses an
  http:// URL when HTTP is not among the allowed protocols, and otherwise asks for four
  bytes of the request body and delivers the response body \<open>hi!\<close> in two pieces.
\<close>

definition example_strerror :: "CURLcode \<Rightarrow> string" where
  "example_strerror rc =
     (if rc = CURLE_UNSUPPORTED_PROTOCOL then ''Unsupported protocol''
      else if rc = CURLE_WRITE_ERROR then ''Failed writing received data to disk/application''
      else ''Error'')"

definition example_transfer :: "CURL \<Rightarrow> event list \<times> CURLcode" where
  "example_transfer h =
     (if prefix ''http://'' (handle_url h) \<and> allowed_protocols h AND CURLPROTO_HTTP = 0
      then ([], CURLE_UNSUPPORTED_PROTOCOL)
      else ([Request [0, 0, 0, 0] 1 4, Deliver [104, 105] 1 2, Deliver [33] 1 1], CURLE_OK))"


definition example_env :: env where
  "example_env =
     \<lparr>getTestCommandsEnabled = False,
      kConnectionTimeoutSeconds = 60,
      kTotalRequestTimeoutSeconds = 120,
      LIBCURL_VERSION_NUM = 0x073A00,
      grant_append = (\<lambda>mem r. True),
      throws_at = (\<lambda>site. None),
      exceptionToStatus = (\<lambda>f. case f of DBException s \<Rightarrow> s
                                 | _ \<Rightarrow> \<lparr>code = UnknownError, reason = ''Caught exception''\<rparr>),
      global_init_result = (\<lambda>n. CURLE_OK),
      version_features = 4,
      easy_init_ok = True,
      setopt_result = (\<lambda>opt. CURLE_OK),
      slist_append_ok = (\<lambda>s. True),
      transfer = example_transfer,
      getinfo_result = CURLE_OK,
      response_code = 200,
      curl_easy_strerror = example_strerror\<rparr>"

section \<open>Basic facts\<close>

lemma dec_int_2: "dec_int 2 = ''2''"
  by (simp add: dec_int_def dec_nat.simps [of 2] digit_char_def)

lemma dec_int_404: "dec_int 404 = ''404''"
  by (simp add: dec_int_def dec_nat.simps [of 404] dec_nat.simps [of 40] dec_nat.simps [of 4]
      digit_char_def)

text \<open>The \<open>invariant\<close> of \<open>ReadMemoryCallback\<close> never fails.\<close>

lemma ReadMemoryCallback_returns:
  "\<exists>n buffer' cdrc'. ReadMemoryCallback buffer sz nitems cdrc = Some (n, buffer', cdrc')"
  by (simp add: ReadMemoryCallback_def cdrc_advance_def cdrc_length_def Let_def)

lemma WriteMemoryCallback_cases:
  "WriteMemoryCallback g ptr sz nmemb mem =
     (if g mem (take (unat (sz * nmemb)) ptr)
      then (unat (sz * nmemb),
            \<lparr>written = written mem @ take (unat (sz * nmemb)) ptr,
             capacity = max (capacity mem)
               (length (written mem) + length (take (unat (sz * nmemb)) ptr))\<rparr>)
      else (0, mem))"
  by (simp add: WriteMemoryCallback_def writeAndAdvance_def Let_def)


lemma WriteMemoryCallback_full_count:
  assumes "WriteMemoryCallback g ptr sz nmemb mem = (n, mem')" "n = unat (sz * nmemb)"
  shows "written mem' = written mem @ take (unat (sz * nmemb)) ptr"
  using assms by (auto simp: WriteMemoryCallback_cases split: if_splits)

text \<open>The transfer loop always comes back: no event aborts the process.\<close>

lemma run_events_returns:
  "\<exists>rc' cdrc' mem'. run_events h g rc es cdrc mem = Some (rc', cdrc', mem')"
proof (induction es arbitrary: cdrc mem)
  case Nil
  show ?case by simp
next
  case (Cons ev es)
  show ?case
  proof (cases ev)
    case (Deliver ptr sz nmemb)
    obtain n mem1 where w: "WriteMemoryCallback g ptr sz nmemb mem = (n, mem1)"
      by (cases "WriteMemoryCallback g ptr sz nmemb mem")
    show ?thesis using Cons.IH [of cdrc mem1] Cons.IH [of cdrc mem] by (simp add: Deliver w)
  next
    case (Request buffer sz nitems)
    obtain n b c where r: "ReadMemoryCallback buffer sz nitems cdrc = Some (n, b, c)"
      using ReadMemoryCallback_returns by blast
    show ?thesis using Cons.IH [of c mem] Cons.IH [of cdrc mem] by (simp add: Request r)
  qed
qed

text \<open>
  On a handle wired to \<open>WriteMemoryCallback\<close> and the DataBuilder, a transfer that ends
  with \<open>CURLE_OK\<close> has appended every delivered byte, in order.
\<close>

lemma run_events_OK_written:
  "write_wired h \<Longrightarrow> run_events h g rc es cdrc mem = Some (CURLE_OK, cdrc', mem')
     \<Longrightarrow> written mem' = written mem @ concat (map delivered es)"
proof (induction es arbitrary: cdrc mem)
  case Nil
  then show ?case by simp
next
  case (Cons ev es)
  show ?case
  proof (cases ev)
    case (Deliver ptr sz nmemb)
    obtain n mem1 where w: "WriteMemoryCallback g ptr sz nmemb mem = (n, mem1)"
      by (cases "WriteMemoryCallback g ptr sz nmemb mem")
    from Cons.prems have full: "n = unat (sz * nmemb)"
      and rest: "run_events h g rc es cdrc mem1 = Some (CURLE_OK, cdrc', mem')"
      by (auto simp: Deliver w CURLE_OK_def CURLE_WRITE_ERROR_def split: if_splits)
    from WriteMemoryCallback_full_count [OF w full] Cons.IH [OF Cons.prems(1) rest]
    show ?thesis by (simp add: Deliver)
  next
    case (Request buffer sz nitems)
    obtain n b c where r: "ReadMemoryCallback buffer sz nitems cdrc = Some (n, b, c)"
      using ReadMemoryCallback_returns by blast
    from Cons.prems obtain c1 where "run_events h g rc es c1 mem = Some (CURLE_OK, cdrc', mem')"
      by (auto simp: Request r split: if_splits)
    from Cons.IH [OF Cons.prems(1) this] show ?thesis by (simp add: Request)
  qed
qed

lemma curl_easy_perform_returns:
  "\<exists>rc cdrc' mem'. curl_easy_perform e h cdrc mem = Some (rc, cdrc', mem')"
  using run_events_returns by (simp add: curl_easy_perform_def split: prod.splits)

text \<open>What libcurl reads from the handle that \<open>doPost\<close> has configured.\<close>

lemma doPost_handle_reads:
  "handle_url (doPost_handle e u c) = u"
  "allowed_protocols (doPost_handle e u c) =
     (if getTestCommandsEnabled e then CURLPROTO_HTTPS OR CURLPROTO_HTTP else CURLPROTO_HTTPS)"
  by (simp_all add: handle_url_def allowed_protocols_def doPost_handle_def doPost_options1_def
      doPost_options2_def curl_easy_setopt_def Let_def)

text \<open>
  Lines 184 to 188 wire the handle to the two callbacks of the file, the DataBuilder and
  the cursor.
\<close>

lemma doPost_handle_wired:
  "write_wired (doPost_handle e u c)"
  "read_wired (doPost_handle e u c)"
  by (simp_all add: write_wired_def read_wired_def doPost_handle_def doPost_options1_def
      doPost_options2_def curl_easy_setopt_def Let_def)

text \<open>The \<open>try\<close> block as a decision list over the answers of the environment.\<close>

lemma doPost_try_unfold:
  "doPost_try e p urlString cdr =
     (if \<not> easy_init_ok e
      then allocating e AllocInitError p
             (setError p \<lparr>code = InternalError, reason = ''Curl initialization failed''\<rparr>, Returns)
      else allocating e AllocDataBuilder p
        (case curl_easy_perform e (doPost_handle e urlString cdr) cdr (DataBuilder_new 4096) of
           None \<Rightarrow> (p, Aborts)
         | Some (result, cdrc', dataBuilder') \<Rightarrow>
             if result \<noteq> CURLE_OK
             then allocating e AllocPerformError p
                    (setError p \<lparr>code = OperationFailed,
                        reason = ''Bad HTTP response from API server: ''
                                 @ curl_easy_strerror e result\<rparr>, Returns)
             else if getinfo_result e \<noteq> CURLE_OK
             then allocating e AllocGetinfoError p
                    (setError p \<lparr>code = OperationFailed,
                        reason = ''Unexpected error retrieving response: ''
                                 @ curl_easy_strerror e (getinfo_result e)\<rparr>, Returns)
             else if response_code e \<noteq> 200
             then allocating e AllocStatusCodeError p
                    (setError p \<lparr>code = OperationFailed,
                        reason = ''Unexpected http status code from server: ''
                                 @ dec_int (response_code e)\<rparr>, Returns)
             else allocating e AllocResultVector p
                    (emplaceValue p (written dataBuilder'), Returns)))"
  by (simp add: doPost_try_def curl_easy_init_def doPost_handle_def
      curl_easy_getinfo_RESPONSE_CODE_def getCursor_def cdrc_length_def cdrc_data_def Let_def
      split: option.splits prod.splits)

lemma doPost_try_never_aborts: "snd (doPost_try e p urlString cdr) \<noteq> Aborts"
proof -
  obtain rc c d where
    "curl_easy_perform e (doPost_handle e urlString cdr) cdr (DataBuilder_new 4096) = Some (rc, c, d)"
    using curl_easy_perform_returns by blast
  then show ?thesis
    by (simp add: doPost_try_unfold allocating_def split: option.splits)
qed

text \<open>The example transfer to an https:// URL, for any status code of the server.\<close>

lemma example_perform:
  "curl_easy_perform (example_env\<lparr>response_code := sc\<rparr>)
     (doPost_handle (example_env\<lparr>response_code := sc\<rparr>) ''https://h/'' [1, 2, 3])
     [1, 2, 3] (DataBuilder_new 4096)
   = Some (CURLE_OK, [], \<lparr>written = [104, 105, 33], capacity = 4096\<rparr>)"
  by (simp add: curl_easy_perform_def example_env_def example_transfer_def doPost_handle_reads
      doPost_handle_wired WriteMemoryCallback_cases ReadMemoryCallback_def cdrc_length_def cdrc_advance_def
      cdrc_data_def memcpy_def DataBuilder_new_def CURLE_OK_def CURLE_WRITE_ERROR_def Let_def)

lemma example_enforces_protocols: "enforces_protocols example_env"
  by (simp add: enforces_protocols_def example_env_def example_transfer_def)

text \<open>
  With test commands enabled, the example libcurl lets the post to an http:// URL
  proceed.
\<close>

lemma doPost_http_test_mode:
  "doPost (example_env\<lparr>getTestCommandsEnabled := True\<rparr>) [] ''http://h/'' [1, 2, 3]
     = ([EmplaceValue [104, 105, 33]], Returns)"
  by (simp add: doPost_def doPost_try_unfold allocating_def emplaceValue_def
      curl_easy_perform_def example_env_def example_transfer_def doPost_handle_reads
      doPost_handle_wired WriteMemoryCallback_cases ReadMemoryCallback_def cdrc_length_def
      cdrc_advance_def cdrc_data_def memcpy_def DataBuilder_new_def CURLE_OK_def
      CURLE_WRITE_ERROR_def CURLPROTO_HTTPS_def CURLPROTO_HTTP_def Let_def)

section \<open>The claims\<close>

text \<open>
  C1. When a handle is acquired, \<open>curl_easy_perform\<close> returns \<open>CURLE_OK\<close>, the status is
  retrieved and is 200, and no allocation of the path throws, \<open>doPost\<close> writes into a
  pending promise exactly the value made of the bytes that the DataBuilder has
  accumulated during the transfer. Because \<open>doPost\<close> has wired the handle to
  \<open>WriteMemoryCallback\<close> and to its DataBuilder, these are the bytes of the response body
  that libcurl delivered, in order.
\<close>

theorem doPost_success_value:
  assumes "easy_init_ok e"
    and "throws_at e AllocDataBuilder = None"
    and "throws_at e AllocResultVector = None"
    and "curl_easy_perform e (doPost_handle e urlString cdr) cdr (DataBuilder_new 4096)
           = Some (CURLE_OK, cdrc', dataBuilder')"
    and "getinfo_result e = CURLE_OK"
    and "response_code e = 200"
  shows "doPost e [] urlString cdr = ([EmplaceValue (written dataBuilder')], Returns)
       \<and> written dataBuilder'
           = concat (map delivered (fst (transfer e (doPost_handle e urlString cdr))))
       \<and> write_wired (doPost_handle e urlString cdr)"
proof -
  have "doPost_try e [] urlString cdr = ([EmplaceValue (written dataBuilder')], Returns)"
    using assms by (simp add: doPost_try_unfold allocating_def emplaceValue_def)
  then have post: "doPost e [] urlString cdr = ([EmplaceValue (written dataBuilder')], Returns)"
    by (simp add: doPost_def)
  obtain es rc where t: "transfer e (doPost_handle e urlString cdr) = (es, rc)"
    by (cases "transfer e (doPost_handle e urlString cdr)")
  with assms(4) have "run_events (doPost_handle e urlString cdr) (grant_append e) rc es cdr
      (DataBuilder_new 4096) = Some (CURLE_OK, cdrc', dataBuilder')"
    by (simp add: curl_easy_perform_def)
  from run_events_OK_written [OF doPost_handle_wired(1) this]
  have "written dataBuilder' = concat (map delivered es)"
    by (simp add: DataBuilder_new_def)
  with post t doPost_handle_wired(1) [of e urlString cdr] show ?thesis by simp
qed

theorem doPost_success_value_witness:
  "easy_init_ok example_env \<and> getinfo_result example_env = CURLE_OK
   \<and> response_code example_env = 200
   \<and> map delivered (fst (transfer example_env
         (doPost_handle example_env ''https://h/'' [1, 2, 3]))) = [[], [104, 105], [33]]
   \<and> doPost example_env [] ''https://h/'' [1, 2, 3] = ([EmplaceValue [104, 105, 33]], Returns)"
proof -
  have a: "easy_init_ok example_env" "throws_at example_env AllocDataBuilder = None"
    "throws_at example_env AllocResultVector = None" "getinfo_result example_env = CURLE_OK"
    "response_code example_env = 200"
    by (simp_all add: example_env_def)
  have p: "curl_easy_perform example_env (doPost_handle example_env ''https://h/'' [1, 2, 3])
     [1, 2, 3] (DataBuilder_new 4096)
   = Some (CURLE_OK, [], \<lparr>written = [104, 105, 33], capacity = 4096\<rparr>)"
    using example_perform [of 200] by (simp add: example_env_def)
  have t: "map delivered (fst (transfer example_env
         (doPost_handle example_env ''https://h/'' [1, 2, 3]))) = [[], [104, 105], [33]]"
    by (simp add: example_env_def example_transfer_def doPost_handle_reads)
  from doPost_success_value [OF a(1) a(2) a(3) p a(4) a(5)] a t
  show ?thesis by simp
qed

text \<open>
  C2. When a handle is acquired, \<open>curl_easy_perform\<close> returns \<open>CURLE_OK\<close>, the status is
  retrieved and is not 200, and no allocation of the path throws, \<open>doPost\<close> writes into a
  pending promise one error and nothing else: its code is OperationFailed and its message
  ends with the decimal digits of the status code.
\<close>

theorem doPost_unexpected_status:
  assumes "easy_init_ok e"
    and "throws_at e AllocDataBuilder = None"
    and "throws_at e AllocStatusCodeError = None"
    and "curl_easy_perform e (doPost_handle e urlString cdr) cdr (DataBuilder_new 4096)
           = Some (CURLE_OK, cdrc', dataBuilder')"
    and "getinfo_result e = CURLE_OK"
    and "response_code e \<noteq> 200"
  shows "\<exists>st. doPost e [] urlString cdr = ([SetError st], Returns)
            \<and> code st = OperationFailed
            \<and> reason st = ''Unexpected http status code from server: '' @ dec_int (response_code e)
            \<and> suffix (dec_int (response_code e)) (reason st)"
proof -
  let ?st = "\<lparr>code = OperationFailed,
              reason = ''Unexpected http status code from server: '' @ dec_int (response_code e)\<rparr>"
  have "doPost_try e [] urlString cdr = ([SetError ?st], Returns)"
    using assms by (simp add: doPost_try_unfold allocating_def setError_def)
  then have "doPost e [] urlString cdr = ([SetError ?st], Returns)"
    by (simp add: doPost_def)
  moreover have "suffix (dec_int (response_code e)) (reason ?st)"
    by (simp add: suffix_def)
  ultimately show ?thesis by simp
qed

theorem doPost_unexpected_status_witness:
  "response_code (example_env\<lparr>response_code := 404\<rparr>) \<noteq> 200
   \<and> doPost (example_env\<lparr>response_code := 404\<rparr>) [] ''https://h/'' [1, 2, 3]
     = ([SetError \<lparr>code = OperationFailed,
                   reason = ''Unexpected http status code from server: 404''\<rparr>], Returns)"
proof -
  let ?e = "example_env\<lparr>response_code := 404\<rparr>"
  have a: "easy_init_ok ?e" "throws_at ?e AllocDataBuilder = None"
    "throws_at ?e AllocStatusCodeError = None" "getinfo_result ?e = CURLE_OK"
    "response_code ?e \<noteq> 200"
    by (simp_all add: example_env_def)
  from doPost_unexpected_status [OF a(1) a(2) a(3) example_perform a(4) a(5)]
  obtain st where "doPost ?e [] ''https://h/'' [1, 2, 3] = ([SetError st], Returns)"
    and "code st = OperationFailed"
    and "reason st = ''Unexpected http status code from server: '' @ dec_int (response_code ?e)"
    by blast
  then show ?thesis by (cases st) (simp add: dec_int_404)
qed

text \<open>
  C3. For every cursor and every requested byte count (\<open>size * nitems\<close>, as the callback
  computes it), the read-out callback returns \<open>n = min requested remaining\<close>, the first
  \<open>n\<close> bytes of the buffer are then the first \<open>n\<close> unread bytes, the rest of the buffer is
  untouched, and the cursor has advanced by exactly \<open>n\<close>. So it never copies more than
  requested or more than remains, and on an exhausted cursor it returns 0.
\<close>

theorem ReadMemoryCallback_copies_min:
  "(let n = min (unat (sz * nitems)) (cdrc_length cdrc) in
      ReadMemoryCallback buffer sz nitems cdrc
        = Some (n, take n (cdrc_data cdrc) @ drop n buffer, drop n cdrc)
      \<and> length (take n (cdrc_data cdrc)) = n
      \<and> cdrc_length (drop n cdrc) = cdrc_length cdrc - n
      \<and> n \<le> unat (sz * nitems) \<and> n \<le> cdrc_length cdrc)
   \<and> ReadMemoryCallback buffer sz nitems [] = Some (0, buffer, [])"
  by (simp add: ReadMemoryCallback_def cdrc_advance_def cdrc_length_def cdrc_data_def
      memcpy_def Let_def)



text \<open>
  C5. \<open>doPost\<close> always returns: it neither lets an exception out nor aborts the process.
  When its \<open>try\<close> block throws \<open>f\<close>, the \<open>catch\<close> clause adds the error
  \<open>exceptionToStatus f\<close> to the promise.
\<close>

theorem doPost_catches_everything:
  "snd (doPost e p urlString cdr) = Returns
   \<and> (\<forall>p' f. doPost_try e p urlString cdr = (p', Throws f)
        \<longrightarrow> doPost e p urlString cdr = (p' @ [SetError (exceptionToStatus e f)], Returns))"
proof -
  obtain p' c where t: "doPost_try e p urlString cdr = (p', c)"
    by (cases "doPost_try e p urlString cdr")
  with doPost_try_never_aborts [of e p urlString cdr] have "c \<noteq> Aborts" by simp
  with t show ?thesis
    by (cases c) (simp_all add: doPost_def setError_def)
qed

theorem doPost_catches_everything_witness:
  "doPost_try (example_env\<lparr>throws_at := (\<lambda>site. Some (StdException ''std::bad_alloc''))\<rparr>)
      [] ''https://h/'' [1, 2, 3] = ([], Throws (StdException ''std::bad_alloc''))
   \<and> doPost (example_env\<lparr>throws_at := (\<lambda>site. Some (StdException ''std::bad_alloc''))\<rparr>)
      [] ''https://h/'' [1, 2, 3]
     = ([SetError \<lparr>code = UnknownError, reason = ''Caught exception''\<rparr>], Returns)"
proof -
  let ?e = "example_env\<lparr>throws_at := (\<lambda>site. Some (StdException ''std::bad_alloc''))\<rparr>"
  have t: "doPost_try ?e [] ''https://h/'' [1, 2, 3] = ([], Throws (StdException ''std::bad_alloc''))"
    by (simp add: doPost_try_unfold allocating_def example_env_def)
  have x: "exceptionToStatus ?e (StdException ''std::bad_alloc'')
      = \<lparr>code = UnknownError, reason = ''Caught exception''\<rparr>"
    by (simp add: example_env_def)
  from doPost_catches_everything [of ?e "[]" "''https://h/''" "[1, 2, 3]"] t x
  show ?thesis by simp
qed

text \<open>
  C6. The value that \<open>doPost\<close> sets for \<open>CURLOPT_PROTOCOLS\<close> is \<open>CURLPROTO_HTTPS\<close> when test
  commands are disabled and \<open>CURLPROTO_HTTPS | CURLPROTO_HTTP\<close> when they are enabled, and
  the first has no HTTP bit. So with test commands disabled, on a libcurl that enforces
  the allowed protocols, a post to an http:// URL ends in the error that reports
  \<open>CURLE_UNSUPPORTED_PROTOCOL\<close> (given a handle and no throwing allocation on the path).
\<close>

theorem doPost_protocols:
  "allowed_protocols (doPost_handle e urlString cdr)
     = (if getTestCommandsEnabled e then CURLPROTO_HTTPS OR CURLPROTO_HTTP else CURLPROTO_HTTPS)
   \<and> CURLPROTO_HTTPS AND CURLPROTO_HTTP = 0
   \<and> (\<not> getTestCommandsEnabled e \<and> prefix ''http://'' urlString \<and> enforces_protocols e
        \<and> easy_init_ok e \<and> throws_at e AllocDataBuilder = None
        \<and> throws_at e AllocPerformError = None
      \<longrightarrow> doPost e [] urlString cdr
            = ([SetError \<lparr>code = OperationFailed,
                          reason = ''Bad HTTP response from API server: ''
                                   @ curl_easy_strerror e CURLE_UNSUPPORTED_PROTOCOL\<rparr>], Returns))"
proof (intro conjI impI)
  show "allowed_protocols (doPost_handle e urlString cdr)
     = (if getTestCommandsEnabled e then CURLPROTO_HTTPS OR CURLPROTO_HTTP else CURLPROTO_HTTPS)"
    by (rule doPost_handle_reads)
  show "CURLPROTO_HTTPS AND CURLPROTO_HTTP = 0"
    by (simp add: CURLPROTO_HTTPS_def CURLPROTO_HTTP_def)
next
  assume a: "\<not> getTestCommandsEnabled e \<and> prefix ''http://'' urlString \<and> enforces_protocols e
        \<and> easy_init_ok e \<and> throws_at e AllocDataBuilder = None
        \<and> throws_at e AllocPerformError = None"
  let ?h = "doPost_handle e urlString cdr"
  from a have "prefix ''http://'' (handle_url ?h) \<and> allowed_protocols ?h AND CURLPROTO_HTTP = 0"
    by (simp add: doPost_handle_reads CURLPROTO_HTTPS_def CURLPROTO_HTTP_def)
  with a have "transfer e ?h = ([], CURLE_UNSUPPORTED_PROTOCOL)"
    unfolding enforces_protocols_def by blast
  then have "curl_easy_perform e ?h cdr (DataBuilder_new 4096)
      = Some (CURLE_UNSUPPORTED_PROTOCOL, cdr, DataBuilder_new 4096)"
    by (simp add: curl_easy_perform_def)
  with a have "doPost_try e [] urlString cdr
      = ([SetError \<lparr>code = OperationFailed,
                    reason = ''Bad HTTP response from API server: ''
                             @ curl_easy_strerror e CURLE_UNSUPPORTED_PROTOCOL\<rparr>], Returns)"
    by (simp add: doPost_try_unfold allocating_def setError_def CURLE_UNSUPPORTED_PROTOCOL_def
        CURLE_OK_def)
  then show "doPost e [] urlString cdr
      = ([SetError \<lparr>code = OperationFailed,
                    reason = ''Bad HTTP response from API server: ''
                             @ curl_easy_strerror e CURLE_UNSUPPORTED_PROTOCOL\<rparr>], Returns)"
    by (simp add: doPost_def)
qed

theorem doPost_protocols_witness:
  "\<not> getTestCommandsEnabled example_env \<and> prefix ''http://'' ''http://h/''
   \<and> enforces_protocols example_env
   \<and> doPost example_env [] ''http://h/'' [1, 2, 3]
       = ([SetError \<lparr>code = OperationFailed,
                     reason = ''Bad HTTP response from API server: Unsupported protocol''\<rparr>],
          Returns)"
proof -
  have a: "\<not> getTestCommandsEnabled example_env" "prefix ''http://'' ''http://h/''"
    "easy_init_ok example_env" "throws_at example_env AllocDataBuilder = None"
    "throws_at example_env AllocPerformError = None"
    "curl_easy_strerror example_env CURLE_UNSUPPORTED_PROTOCOL = ''Unsupported protocol''"
    by (simp_all add: example_env_def example_strerror_def)
  from doPost_protocols [of example_env "''http://h/''" "[1, 2, 3]"]
    example_enforces_protocols a
  show ?thesis by simp
qed

text \<open>
  C7. Once a call of \<open>initialize\<close> has returned OK, the manager is initialized, and a
  further call returns OK and changes nothing: it does not call \<open>curl_global_init\<close>. The
  successful call itself has called \<open>curl_global_init\<close> once if the manager was not yet
  initialized, and not at all otherwise; so two calls in sequence on a fresh manager,
  the first successful, return OK twice and start the library once.
\<close>

theorem initialize_idempotent:
  assumes "initialize e (m, n) = (s1, m1, n1)" and "isOK s1"
  shows "initialize e (m1, n1) = (Status_OK, m1, n1)
       \<and> initialized m1
       \<and> n1 = (if initialized m then n else Suc n)"
  using assms
  by (auto simp: initialize_def curl_global_init_def isOK_def Status_OK_def
      split: if_splits)

theorem initialize_idempotent_witness:
  "initialize example_env (\<lparr>initialized = False\<rparr>, 0) = (Status_OK, \<lparr>initialized = True\<rparr>, 1)
   \<and> isOK Status_OK
   \<and> initialize example_env (\<lparr>initialized = True\<rparr>, 1) = (Status_OK, \<lparr>initialized = True\<rparr>, 1)"
proof -
  have a: "initialize example_env (\<lparr>initialized = False\<rparr>, 0)
      = (Status_OK, \<lparr>initialized = True\<rparr>, 1)"
    by (simp add: initialize_def curl_global_init_def example_env_def CURL_VERSION_SSL_def
        CURLE_OK_def)
  have b: "isOK Status_OK" by (simp add: isOK_def Status_OK_def)
  from initialize_idempotent [OF a b] a b show ?thesis by simp
qed

text \<open>
  C8, as amended. On a manager that is not yet initialized, \<open>initialize\<close> fails with
  InternalError and the message "Failed to initialize CURL: " followed by the code when
  \<open>curl_global_init\<close> reports a failure, and fails with the same error code InternalError
  and the message "Curl lacks SSL support, cannot continue" when the library lacks the
  SSL feature; the two failures differ in the message only. The initialized flag is set
  exactly when neither failure occurs.
\<close>

theorem initialize_failures:
  assumes "\<not> initialized m"
  shows "(global_init_result e n \<noteq> CURLE_OK \<longrightarrow>
            initialize e (m, n)
              = (\<lparr>code = InternalError,
                  reason = ''Failed to initialize CURL: '' @ dec_int (int (global_init_result e n))\<rparr>,
                 m, Suc n))
       \<and> (global_init_result e n = CURLE_OK \<and> version_features e AND CURL_VERSION_SSL = 0 \<longrightarrow>
            initialize e (m, n)
              = (\<lparr>code = InternalError, reason = ''Curl lacks SSL support, cannot continue''\<rparr>,
                 m, Suc n))
       \<and> (initialized (fst (snd (initialize e (m, n))))
            = (global_init_result e n = CURLE_OK \<and> version_features e AND CURL_VERSION_SSL \<noteq> 0))"
  using assms by (simp add: initialize_def curl_global_init_def)

theorem initialize_failures_witness:
  "initialize (example_env\<lparr>global_init_result := (\<lambda>n. 2)\<rparr>) (\<lparr>initialized = False\<rparr>, 0)
     = (\<lparr>code = InternalError, reason = ''Failed to initialize CURL: 2''\<rparr>,
        \<lparr>initialized = False\<rparr>, 1)
   \<and> initialize (example_env\<lparr>version_features := 3\<rparr>) (\<lparr>initialized = False\<rparr>, 0)
     = (\<lparr>code = InternalError, reason = ''Curl lacks SSL support, cannot continue''\<rparr>,
        \<lparr>initialized = False\<rparr>, 1)"
proof -
  have m: "\<not> initialized \<lparr>initialized = False\<rparr>" by simp
  have a: "global_init_result (example_env\<lparr>global_init_result := (\<lambda>n. 2)\<rparr>) 0 \<noteq> CURLE_OK"
    by (simp add: CURLE_OK_def)
  have b: "global_init_result (example_env\<lparr>version_features := 3\<rparr>) 0 = CURLE_OK
      \<and> version_features (example_env\<lparr>version_features := 3\<rparr>) AND CURL_VERSION_SSL = 0"
    by (simp add: example_env_def CURL_VERSION_SSL_def)
  from initialize_failures [OF m, of "example_env\<lparr>global_init_result := (\<lambda>n. 2)\<rparr>" 0] a
    initialize_failures [OF m, of "example_env\<lparr>version_features := 3\<rparr>" 0] b
  show ?thesis by (simp add: dec_int_2)
qed

text \<open>
  C8 as stated fails: a library without SSL support and a library whose startup fails
  give \<open>initialize\<close> the same error code.
\<close>

theorem initialize_error_kinds_counterexample:
  "code (fst (initialize (example_env\<lparr>version_features := 3\<rparr>) (\<lparr>initialized = False\<rparr>, 0)))
     = code (fst (initialize (example_env\<lparr>global_init_result := (\<lambda>n. 2)\<rparr>)
                    (\<lparr>initialized = False\<rparr>, 0)))"
  by (simp add: initialize_def curl_global_init_def example_env_def CURL_VERSION_SSL_def
      CURLE_OK_def)

text \<open>
  C9. Whatever the environment does, \<open>doPost\<close> leaves a pending promise with exactly one
  write, which is one error or one value.
\<close>

theorem doPost_writes_once:
  "length (fst (doPost e [] urlString cdr)) = 1
   \<and> ((\<exists>st. fst (doPost e [] urlString cdr) = [SetError st])
        \<or> (\<exists>v. fst (doPost e [] urlString cdr) = [EmplaceValue v]))"
proof -
  obtain rc c d where
    "curl_easy_perform e (doPost_handle e urlString cdr) cdr (DataBuilder_new 4096) = Some (rc, c, d)"
    using curl_easy_perform_returns by blast
  then show ?thesis
    by (simp add: doPost_def doPost_try_unfold allocating_def setError_def emplaceValue_def
        split: option.splits)
qed

text \<open>
  C10. The codes that the option-setting calls return do not reach the result of
  \<open>doPost\<close>: replacing them by any others changes nothing. When \<open>doPost\<close> has written an
  error, then no handle was acquired, or \<open>curl_easy_perform\<close> returned a code other than
  \<open>CURLE_OK\<close>, or the status could not be retrieved, or the status was not 200, or the
  \<open>try\<close> block threw.
\<close>

theorem doPost_failure_sources:
  "doPost (e\<lparr>setopt_result := r\<rparr>) p urlString cdr = doPost e p urlString cdr
   \<and> (\<forall>st. fst (doPost e [] urlString cdr) = [SetError st] \<longrightarrow>
        \<not> easy_init_ok e
        \<or> (\<exists>rc c d. curl_easy_perform e (doPost_handle e urlString cdr) cdr (DataBuilder_new 4096)
                       = Some (rc, c, d) \<and> rc \<noteq> CURLE_OK)
        \<or> getinfo_result e \<noteq> CURLE_OK
        \<or> response_code e \<noteq> 200
        \<or> (\<exists>f. doPost_try e [] urlString cdr = ([], Throws f)))"
proof (intro conjI allI impI)
  have h: "doPost_handle (e\<lparr>setopt_result := r\<rparr>) urlString cdr = doPost_handle e urlString cdr"
    by (simp add: doPost_handle_def doPost_options1_def doPost_options2_def
        curl_easy_setopt_def curl_slist_append_def Let_def)
  have "doPost_try (e\<lparr>setopt_result := r\<rparr>) p urlString cdr = doPost_try e p urlString cdr"
    by (simp add: doPost_try_unfold h allocating_def curl_easy_perform_def
        cong: option.case_cong prod.case_cong if_cong)
  then show "doPost (e\<lparr>setopt_result := r\<rparr>) p urlString cdr = doPost e p urlString cdr"
    by (simp add: doPost_def cong: prod.case_cong completion.case_cong)
next
  fix st
  assume s: "fst (doPost e [] urlString cdr) = [SetError st]"
  obtain rc c d where
    p: "curl_easy_perform e (doPost_handle e urlString cdr) cdr (DataBuilder_new 4096) = Some (rc, c, d)"
    using curl_easy_perform_returns by blast
  show "\<not> easy_init_ok e
        \<or> (\<exists>rc c d. curl_easy_perform e (doPost_handle e urlString cdr) cdr (DataBuilder_new 4096)
                       = Some (rc, c, d) \<and> rc \<noteq> CURLE_OK)
        \<or> getinfo_result e \<noteq> CURLE_OK
        \<or> response_code e \<noteq> 200
        \<or> (\<exists>f. doPost_try e [] urlString cdr = ([], Throws f))"
    using s p
    by (auto simp: doPost_def doPost_try_unfold allocating_def setError_def emplaceValue_def
        split: option.splits if_splits)
qed

theorem doPost_failure_sources_witness:
  "doPost (example_env\<lparr>response_code := 404, setopt_result := (\<lambda>opt. 43)\<rparr>)
       [] ''https://h/'' [1, 2, 3]
     = doPost (example_env\<lparr>response_code := 404\<rparr>) [] ''https://h/'' [1, 2, 3]
   \<and> fst (doPost (example_env\<lparr>response_code := 404\<rparr>) [] ''https://h/'' [1, 2, 3])
     = [SetError \<lparr>code = OperationFailed,
                  reason = ''Unexpected http status code from server: 404''\<rparr>]
   \<and> easy_init_ok (example_env\<lparr>response_code := 404\<rparr>)
   \<and> getinfo_result (example_env\<lparr>response_code := 404\<rparr>) = CURLE_OK
   \<and> response_code (example_env\<lparr>response_code := 404\<rparr>) \<noteq> 200"
proof -
  let ?e = "example_env\<lparr>response_code := 404\<rparr>"
  have d: "doPost ?e [] ''https://h/'' [1, 2, 3]
      = ([SetError \<lparr>code = OperationFailed,
                    reason = ''Unexpected http status code from server: 404''\<rparr>], Returns)"
    using example_perform [of 404]
    by (simp add: doPost_def doPost_try_unfold allocating_def setError_def dec_int_404
        example_env_def)
  have a: "easy_init_ok ?e" "getinfo_result ?e = CURLE_OK" "response_code ?e \<noteq> 200"
    by (simp_all add: example_env_def)
  from doPost_failure_sources [of "\<lambda>opt. 43" ?e "[]" "''https://h/''" "[1, 2, 3]"] d a
  show ?thesis by simp
qed

end
